theory Spec2Isabelle
  imports Complex_Main
begin

section \<open>Conventions of the embedding\<close>

text \<open>
  The repository is a Python position and risk engine. Its components are embedded as
  functions that take the component's state and return the result together with the new
  state.

  \<^item> Python floats are modelled as \<^typ>\<open>real\<close>: every arithmetic expression of the source
    is the same expression over the reals, without rounding, infinities or NaN. A division
    raises \<open>ZeroDivisionError\<close> when the divisor is zero, and that is a branch of the model.
  \<^item> A reading of \<open>datetime.now()\<close> is represented by the text that
    \<open>strftime('%Y%m%d_%H%M%S')\<close> makes of it; the code looks at a reading in no other way.
    An operation takes a \<open>clock\<close>: \<open>clk k\<close> is what the \<open>k\<close>-th call of \<open>datetime.now()\<close>
    made during the operation returns, counted from 0.
  \<^item> A dictionary that is only looked up is a map; one that is iterated is a list in
    insertion order.
  \<^item> An exception is a value \<open>Inl e\<close>, returned together with the state as it was when the
    exception was raised.
\<close>

datatype error = KeyError | TypeError | ZeroDivisionError

type_synonym datetime = string
type_synonym clock = "nat \<Rightarrow> datetime"

definition later :: "nat \<Rightarrow> clock \<Rightarrow> clock" where
  "later n clk = (\<lambda>k. clk (k + n))"

section \<open>Order Lifecycle Manager (order\_manager.py)\<close>

datatype OrderType = MARKET | LIMIT | STOP_LOSS | TAKE_PROFIT
datatype OrderSide = BUY | SELL
datatype OrderStatus = PENDING | OPEN | FILLED | CANCELLED | REJECTED

text \<open>
  The dataclass \<open>Order\<close>. The field \<open>id\<close> is \<open>order_id\<close> and \<open>size\<close> is \<open>order_size\<close>
  here, since \<open>id\<close> and \<open>size\<close> are constants of HOL.
\<close>

record Order =
  order_id :: string
  asset :: string
  order_type :: OrderType
  side :: OrderSide
  order_size :: real
  price :: "real option"
  status :: OrderStatus
  timestamp :: datetime
  fill_price :: "real option"
  fill_time :: "datetime option"
  entry_price :: "real option"
  related_orders :: "string set"

text \<open>
  The constructor with the defaults of the dataclass, followed by \<open>__post_init__\<close>: a
  market order takes its \<open>price\<close> as \<open>entry_price\<close>.
\<close>

definition new_order ::
  "string \<Rightarrow> string \<Rightarrow> OrderType \<Rightarrow> OrderSide \<Rightarrow> real \<Rightarrow> real option \<Rightarrow> OrderStatus \<Rightarrow> datetime
     \<Rightarrow> Order" where
  "new_order oid a ty sd sz pr st ts =
     \<lparr>order_id = oid, asset = a, order_type = ty, side = sd, order_size = sz, price = pr,
      status = st, timestamp = ts, fill_price = None, fill_time = None,
      entry_price = (if ty = MARKET then pr else None), related_orders = {}\<rparr>"

text \<open>An entry of the fill ledger: the dictionary with the keys price, time and size.\<close>

record Fill =
  fill_at :: real
  fill_when :: datetime
  fill_size :: real

text \<open>
  The state of an \<open>OrderManager\<close>. \<open>config_stops\<close> is \<open>config["stops"]\<close> with its two
  entries \<open>(stop_loss_percent, take_profit_percent)\<close>, and \<open>None\<close> when the configuration
  lacks one of them, so that reading them raises \<open>KeyError\<close>.

  \<open>orders\<close> and \<open>fills\<close> are only looked up by key, so they are maps. \<open>active_orders\<close>
  is iterated, so it is a list in insertion order. In the source \<open>active_orders\<close> holds
  the very objects that \<open>orders\<close> holds (both are set from the same object when an order is
  created, and an order is changed only in place), so the model keeps its keys and reads the
  orders from \<open>orders\<close>.
\<close>

record OrderManager =
  config_stops :: "(real \<times> real) option"
  orders :: "string \<rightharpoonup> Order"
  active_orders :: "string list"
  fills :: "string \<rightharpoonup> Fill list"
  order_counter :: nat

definition init_manager :: "(real \<times> real) option \<Rightarrow> OrderManager" where
  "init_manager cfg =
     \<lparr>config_stops = cfg, orders = Map.empty, active_orders = [], fills = Map.empty,
      order_counter = 0\<rparr>"

subsection \<open>Order ids\<close>

definition digit_char :: "nat \<Rightarrow> char" where
  "digit_char d = ''0123456789'' ! d"

function show_nat :: "nat \<Rightarrow> string" where
  "show_nat n = (if n < 10 then [digit_char n] else show_nat (n div 10) @ [digit_char (n mod 10)])"
  by pat_completeness auto
termination
  by (relation "measure (\<lambda>n. n)") auto

declare show_nat.simps [simp del]

text \<open>The text \<open>f"order_{stamp}_{counter}"\<close>.\<close>

definition order_id_text :: "datetime \<Rightarrow> nat \<Rightarrow> string" where
  "order_id_text stamp n = ''order_'' @ stamp @ ''_'' @ show_nat n"

definition generate_order_id :: "datetime \<Rightarrow> OrderManager \<Rightarrow> string \<times> OrderManager" where
  "generate_order_id now m =
     (let c = order_counter m + 1
      in (order_id_text now c, m\<lparr>order_counter := c\<rparr>))"

subsection \<open>Operations\<close>

text \<open>\<open>d[k] = v\<close> on the keys of an insertion-ordered dictionary, and \<open>d.pop(k, None)\<close>.\<close>

definition dict_set_key :: "string \<Rightarrow> string list \<Rightarrow> string list" where
  "dict_set_key k ks = (if k \<in> set ks then ks else ks @ [k])"

definition dict_pop_key :: "string \<Rightarrow> string list \<Rightarrow> string list" where
  "dict_pop_key k ks = removeAll k ks"

text \<open>\<open>self.orders[k].related_orders.add(r)\<close> for a key \<open>k\<close> of the table.\<close>

definition add_related :: "string \<Rightarrow> string \<Rightarrow> OrderManager \<Rightarrow> OrderManager" where
  "add_related k r m =
     (case orders m k of
        None \<Rightarrow> m
      | Some ord \<Rightarrow> m\<lparr>orders := (orders m)(k \<mapsto> ord\<lparr>related_orders := insert r (related_orders ord)\<rparr>)\<rparr>)"

definition register_order :: "Order \<Rightarrow> OrderManager \<Rightarrow> OrderManager" where
  "register_order ord m =
     m\<lparr>orders := (orders m)(order_id ord \<mapsto> ord),
       active_orders := dict_set_key (order_id ord) (active_orders m)\<rparr>"

text \<open>\<open>create_market_order\<close>: the argument \<open>attach_stops\<close> is received and never read.\<close>

definition create_market_order ::
  "clock \<Rightarrow> string \<Rightarrow> OrderSide \<Rightarrow> real \<Rightarrow> bool \<Rightarrow> OrderManager \<Rightarrow> Order \<times> OrderManager" where
  "create_market_order clk a sd sz attach_stops m =
     (let (oid, m1) = generate_order_id (clk 0) m;
          ord = new_order oid a MARKET sd sz None PENDING (clk 1)
      in (ord, register_order ord m1))"

definition create_limit_order ::
  "clock \<Rightarrow> string \<Rightarrow> OrderSide \<Rightarrow> real \<Rightarrow> real \<Rightarrow> OrderManager \<Rightarrow> Order \<times> OrderManager" where
  "create_limit_order clk a sd sz pr m =
     (let (oid, m1) = generate_order_id (clk 0) m;
          ord = new_order oid a LIMIT sd sz (Some pr) PENDING (clk 1)
      in (ord, register_order ord m1))"

text \<open>
  \<open>create_stop_order\<close>. \<open>if parent_order_id:\<close> holds for a string that is not empty; \<open>None\<close>
  and the empty string are both skipped. The parent's id is added to the new order
  whether or not the table knows it; the new id is added to the parent only when the
  table has the parent.
\<close>

definition create_stop_order ::
  "clock \<Rightarrow> string \<Rightarrow> OrderSide \<Rightarrow> real \<Rightarrow> real \<Rightarrow> OrderType \<Rightarrow> string option \<Rightarrow> OrderManager
     \<Rightarrow> Order \<times> OrderManager" where
  "create_stop_order clk a sd sz stop_price ty parent_order_id m =
     (let (oid, m1) = generate_order_id (clk 0) m;
          ord = new_order oid a ty sd sz (Some stop_price) PENDING (clk 1)
      in (case parent_order_id of
            None \<Rightarrow> (ord, register_order ord m1)
          | Some p \<Rightarrow>
              if p = [] then (ord, register_order ord m1)
              else
                let ord1 = ord\<lparr>related_orders := insert p (related_orders ord)\<rparr>;
                    m2 = (if p \<in> dom (orders m1) then add_related p oid m1 else m1)
                in (ord1, register_order ord1 m2)))"

text \<open>
  \<open>_attach_stop_orders\<close>. The source receives the parent object, which \<open>process_fill\<close> has
  just read from the table under \<open>key\<close>; the model receives the key. \<open>if not
  parent_order.fill_price\<close> holds for \<open>None\<close> and for \<open>0.0\<close>. The result is the list of the
  ids of the two new orders (the source returns the two objects, which sit in the table
  under these ids).
\<close>

definition attach_stop_orders ::
  "clock \<Rightarrow> string \<Rightarrow> OrderManager \<Rightarrow> (error + string list) \<times> OrderManager" where
  "attach_stop_orders clk key m =
     (case orders m key of
        None \<Rightarrow> (Inr [], m)
      | Some parent_order \<Rightarrow>
          (case fill_price parent_order of
             None \<Rightarrow> (Inr [], m)
           | Some fp \<Rightarrow>
               if fp = 0 then (Inr [], m)
               else
                 (case config_stops m of
                    None \<Rightarrow> (Inl KeyError, m)
                  | Some (stop_loss_pct, take_profit_pct) \<Rightarrow>
                      let stop_loss_price = fp * (1 - stop_loss_pct);
                          take_profit_price = fp * (1 + take_profit_pct);
                          (stop_loss, m1) =
                             create_stop_order clk (asset parent_order) SELL
                               (order_size parent_order) stop_loss_price STOP_LOSS
                               (Some (order_id parent_order)) m;
                          (take_profit, m2) =
                             create_stop_order (later 2 clk) (asset parent_order) SELL
                               (order_size parent_order) take_profit_price TAKE_PROFIT
                               (Some (order_id parent_order)) m1;
                          m3 = add_related (order_id stop_loss) (order_id take_profit) m2;
                          m4 = add_related (order_id take_profit) (order_id stop_loss) m3;
                          m5 = add_related key (order_id stop_loss) m4;
                          m6 = add_related key (order_id take_profit) m5
                      in (Inr [order_id stop_loss, order_id take_profit], m6))))"

text \<open>
  \<open>process_fill\<close>. \<open>fill_time or datetime.now()\<close> reads the clock only when no fill time is
  given. A \<open>KeyError\<close> of \<open>_attach_stop_orders\<close> leaves the order filled and the fill
  recorded.
\<close>

definition process_fill ::
  "clock \<Rightarrow> string \<Rightarrow> real \<Rightarrow> datetime option \<Rightarrow> OrderManager \<Rightarrow> (error + bool) \<times> OrderManager" where
  "process_fill clk oid fp ft m =
     (case orders m oid of
        None \<Rightarrow> (Inr False, m)
      | Some ord \<Rightarrow>
          if status ord \<noteq> OPEN then (Inr False, m)
          else
            let (t, clk1) = (case ft of Some t \<Rightarrow> (t, clk) | None \<Rightarrow> (clk 0, later 1 clk));
                ord1 = ord\<lparr>status := FILLED, fill_price := Some fp, fill_time := Some t\<rparr>;
                ledger = (case fills m oid of None \<Rightarrow> [] | Some fs \<Rightarrow> fs);
                m1 = m\<lparr>orders := (orders m)(oid \<mapsto> ord1),
                       active_orders := dict_pop_key oid (active_orders m),
                       fills := (fills m)(oid \<mapsto>
                          ledger @ [\<lparr>fill_at = fp, fill_when = t, fill_size = order_size ord1\<rparr>])\<rparr>
            in if order_type ord1 = MARKET
               then (case attach_stop_orders clk1 oid m1 of
                       (Inl e, m2) \<Rightarrow> (Inl e, m2)
                     | (Inr stops, m2) \<Rightarrow> (Inr True, m2))
               else (Inr True, m1))"

text \<open>
  \<open>cancel_order\<close>. The loop visits the ids of \<open>order.related_orders\<close>, a set, in an order
  Python does not fix. Each visit reads and writes only the order it visits and removes
  only that order's key from \<open>active_orders\<close>, and the ids of a set are distinct, so the
  visits commute and the loop is the simultaneous update \<open>cascade\<close>. The order being
  cancelled is already \<open>CANCELLED\<close> when the loop starts, so the loop skips it should it
  name itself.
\<close>

definition cancellable :: "Order \<Rightarrow> bool" where
  "cancellable ord \<longleftrightarrow> status ord = PENDING \<or> status ord = OPEN"

definition cascade :: "string set \<Rightarrow> OrderManager \<Rightarrow> OrderManager" where
  "cascade rel m =
     m\<lparr>orders := (\<lambda>k. case orders m k of
                        None \<Rightarrow> None
                      | Some r \<Rightarrow> if k \<in> rel \<and> cancellable r
                                  then Some (r\<lparr>status := CANCELLED\<rparr>) else Some r),
       active_orders := filter (\<lambda>k. \<not> (k \<in> rel \<and>
                           (case orders m k of None \<Rightarrow> False | Some r \<Rightarrow> cancellable r)))
                         (active_orders m)\<rparr>"

definition cancel_order :: "string \<Rightarrow> OrderManager \<Rightarrow> bool \<times> OrderManager" where
  "cancel_order oid m =
     (case orders m oid of
        None \<Rightarrow> (False, m)
      | Some ord \<Rightarrow>
          if \<not> cancellable ord then (False, m)
          else
            let m1 = m\<lparr>orders := (orders m)(oid \<mapsto> ord\<lparr>status := CANCELLED\<rparr>),
                       active_orders := dict_pop_key oid (active_orders m)\<rparr>
            in (True, cascade (related_orders ord) m1))"

definition get_order :: "string \<Rightarrow> OrderManager \<Rightarrow> Order option" where
  "get_order oid m = orders m oid"

text \<open>
  \<open>get_active_orders\<close>: \<open>if asset:\<close> filters only for an asset that is not the empty
  string.
\<close>

definition get_active_orders :: "string option \<Rightarrow> OrderManager \<Rightarrow> Order list" where
  "get_active_orders a m =
     (let os = List.map_filter (orders m) (active_orders m)
      in case a of
           None \<Rightarrow> os
         | Some x \<Rightarrow> if x = [] then os else filter (\<lambda>ord. asset ord = x) os)"

definition get_fills :: "string \<Rightarrow> OrderManager \<Rightarrow> Fill list" where
  "get_fills oid m = (case fills m oid of None \<Rightarrow> [] | Some fs \<Rightarrow> fs)"

section \<open>Managers the operations produce\<close>

text \<open>
  The operations give an order the key that is its id, and every id is made by
  \<open>_generate_order_id\<close>, so it ends in the value the counter had. \<open>id_counter\<close> reads
  that value back from an id; it is not a function of the source, only a means to state
  which ids the table can hold.
\<close>

definition digit_val :: "char \<Rightarrow> nat" where
  "digit_val c = of_char c - 48"

definition read_nat :: "string \<Rightarrow> nat" where
  "read_nat s = foldl (\<lambda>a c. 10 * a + digit_val c) 0 s"

definition id_counter :: "string \<Rightarrow> nat" where
  "id_counter k = read_nat (rev (takeWhile (\<lambda>c. c \<noteq> CHR ''_'') (rev k)))"

text \<open>
  \<open>manager_ok\<close> holds of a new manager and every operation keeps it (lemmas
  \<open>init_manager_ok\<close> to \<open>cancel_order_ok\<close> below): an order sits under its own id, ids
  are not empty and are not ahead of the counter, and the active orders are distinct
  orders of the table that are pending or open.
\<close>

definition manager_ok :: "OrderManager \<Rightarrow> bool" where
  "manager_ok m \<longleftrightarrow>
     (\<forall>k ord. orders m k = Some ord \<longrightarrow>
        order_id ord = k \<and> k \<noteq> [] \<and> id_counter k \<le> order_counter m)
     \<and> (\<forall>k \<in> set (active_orders m). \<exists>ord. orders m k = Some ord \<and> cancellable ord)
     \<and> distinct (active_orders m)"

lemma digit_cases:
  "d < 10 \<Longrightarrow>
     d = 0 \<or> d = 1 \<or> d = 2 \<or> d = 3 \<or> d = 4 \<or> d = 5 \<or> d = 6 \<or> d = 7 \<or> d = 8 \<or> d = (9::nat)"
  by arith

lemma digit_val_digit_char: "d < 10 \<Longrightarrow> digit_val (digit_char d) = d"
  using digit_cases [of d] by (auto simp: digit_val_def digit_char_def)

lemma digit_char_not_underscore: "d < 10 \<Longrightarrow> digit_char d \<noteq> CHR ''_''"
  using digit_cases [of d] by (auto simp: digit_char_def)

lemma show_nat_digit: "n < 10 \<Longrightarrow> show_nat n = [digit_char n]"
  by (simp add: show_nat.simps)

lemma show_nat_no_underscore: "CHR ''_'' \<notin> set (show_nat n)"
proof (induction n rule: show_nat.induct)
  case (1 n)
  show ?case
  proof (cases "n < 10")
    case True
    then show ?thesis
      using digit_char_not_underscore [of n] by (subst show_nat.simps) auto
  next
    case False
    have "n mod 10 < 10" by simp
    then have "digit_char (n mod 10) \<noteq> CHR ''_''" by (rule digit_char_not_underscore)
    with False 1 show ?thesis by (subst show_nat.simps) auto
  qed
qed

lemma read_nat_snoc: "read_nat (s @ [c]) = 10 * read_nat s + digit_val c"
  by (simp add: read_nat_def)

lemma read_nat_show_nat: "read_nat (show_nat n) = n"
proof (induction n rule: show_nat.induct)
  case (1 n)
  show ?case
  proof (cases "n < 10")
    case True
    then show ?thesis
      by (subst show_nat.simps) (simp add: read_nat_def digit_val_digit_char)
  next
    case False
    then have "read_nat (show_nat n) =
        10 * read_nat (show_nat (n div 10)) + digit_val (digit_char (n mod 10))"
      by (subst show_nat.simps) (simp add: read_nat_snoc)
    also have "\<dots> = 10 * (n div 10) + n mod 10"
      using False 1 by (simp add: digit_val_digit_char)
    finally show ?thesis by simp
  qed
qed

lemma id_counter_order_id_text: "id_counter (order_id_text stamp n) = n"
proof -
  have "rev (order_id_text stamp n) = rev (show_nat n) @ CHR ''_'' # rev (''order_'' @ stamp)"
    by (simp add: order_id_text_def)
  moreover have "\<forall>c \<in> set (rev (show_nat n)). c \<noteq> CHR ''_''"
    using show_nat_no_underscore [of n] by auto
  ultimately have
    "takeWhile (\<lambda>c. c \<noteq> CHR ''_'') (rev (order_id_text stamp n)) = rev (show_nat n)"
    by (simp add: takeWhile_tail)
  then show ?thesis by (simp add: id_counter_def read_nat_show_nat)
qed

lemma order_id_text_not_empty: "order_id_text stamp n \<noteq> []"
  by (simp add: order_id_text_def)

lemma order_id_text_counter_inj: "order_id_text s1 n1 = order_id_text s2 n2 \<Longrightarrow> n1 = n2"
  by (metis id_counter_order_id_text)

lemma fresh_id:
  assumes "manager_ok m" and "order_counter m < n"
  shows "orders m (order_id_text stamp n) = None"
proof (cases "orders m (order_id_text stamp n)")
  case None
  then show ?thesis .
next
  case (Some ord)
  with assms(1) have "id_counter (order_id_text stamp n) \<le> order_counter m"
    unfolding manager_ok_def by blast
  with assms(2) show ?thesis by (simp add: id_counter_order_id_text)
qed

lemma fresh_id_not_active:
  assumes "manager_ok m" and "order_counter m < n"
  shows "order_id_text stamp n \<notin> set (active_orders m)"
  using fresh_id [OF assms, of stamp] assms(1) unfolding manager_ok_def by force

subsection \<open>Every operation keeps \<open>manager_ok\<close>\<close>

lemma init_manager_ok: "manager_ok (init_manager cfg)"
  by (simp add: manager_ok_def init_manager_def)

lemma manager_ok_counter:
  "manager_ok m \<Longrightarrow> order_counter m \<le> c \<Longrightarrow> manager_ok (m\<lparr>order_counter := c\<rparr>)"
  unfolding manager_ok_def by (simp, meson le_trans)

lemma manager_ok_add_related: "manager_ok m \<Longrightarrow> manager_ok (add_related k r m)"
  unfolding manager_ok_def add_related_def
  by (auto simp: cancellable_def split: option.splits)

lemma manager_ok_register:
  assumes "manager_ok m" and "orders m (order_id ord) = None" and "order_id ord \<noteq> []"
    and "id_counter (order_id ord) \<le> order_counter m" and "cancellable ord"
  shows "manager_ok (register_order ord m)"
proof -
  from assms(1,2) have "order_id ord \<notin> set (active_orders m)"
    unfolding manager_ok_def by force
  with assms show ?thesis
    unfolding manager_ok_def register_order_def dict_set_key_def by auto
qed

lemma orders_add_related_None: "orders (add_related k r m) j = None \<longleftrightarrow> orders m j = None"
  by (simp add: add_related_def split: option.splits)

lemma order_counter_add_related: "order_counter (add_related k r m) = order_counter m"
  by (simp add: add_related_def split: option.splits)

lemma generate_order_id_ok:
  assumes "manager_ok m" and "generate_order_id now m = (oid, m1)"
  shows "manager_ok m1 \<and> orders m1 oid = None \<and> oid \<noteq> [] \<and> id_counter oid \<le> order_counter m1
     \<and> orders m1 = orders m \<and> active_orders m1 = active_orders m"
proof -
  from assms(2) have m1: "m1 = m\<lparr>order_counter := order_counter m + 1\<rparr>"
    and oid: "oid = order_id_text now (order_counter m + 1)"
    by (auto simp: generate_order_id_def Let_def)
  have "manager_ok m1" unfolding m1 using assms(1) by (rule manager_ok_counter) simp
  moreover have "orders m oid = None" unfolding oid using assms(1) by (rule fresh_id) simp
  ultimately show ?thesis
    by (simp add: m1 oid order_id_text_not_empty id_counter_order_id_text)
qed

lemma new_order_simps [simp]:
  "order_id (new_order oid a ty sd sz pr st ts) = oid"
  "status (new_order oid a ty sd sz pr st ts) = st"
  by (simp_all add: new_order_def)

lemma create_market_order_ok:
  assumes "manager_ok m"
  shows "manager_ok (snd (create_market_order clk a sd sz att m))"
proof -
  obtain oid m1 where g: "generate_order_id (clk 0) m = (oid, m1)" by fastforce
  from generate_order_id_ok [OF assms g] show ?thesis
    by (auto simp: create_market_order_def g Let_def cancellable_def intro!: manager_ok_register)
qed

lemma create_limit_order_ok:
  assumes "manager_ok m"
  shows "manager_ok (snd (create_limit_order clk a sd sz pr m))"
proof -
  obtain oid m1 where g: "generate_order_id (clk 0) m = (oid, m1)" by fastforce
  from generate_order_id_ok [OF assms g] show ?thesis
    by (auto simp: create_limit_order_def g Let_def cancellable_def intro!: manager_ok_register)
qed

lemma create_stop_order_ok:
  assumes "manager_ok m"
  shows "manager_ok (snd (create_stop_order clk a sd sz pr ty par m))"
proof -
  obtain oid m1 where g: "generate_order_id (clk 0) m = (oid, m1)" by fastforce
  from generate_order_id_ok [OF assms g] show ?thesis
    by (auto simp: create_stop_order_def g Let_def cancellable_def orders_add_related_None
        order_counter_add_related
        intro!: manager_ok_register manager_ok_add_related split: option.splits)
qed


lemma cascade_ok: "manager_ok m \<Longrightarrow> manager_ok (cascade rel m)"
  unfolding manager_ok_def cascade_def
  by (auto simp: cancellable_def split: option.splits if_splits)

lemma cancel_order_ok: "manager_ok m \<Longrightarrow> manager_ok (snd (cancel_order oid m))"
proof -
  assume ok: "manager_ok m"
  have "manager_ok (m\<lparr>orders := (orders m)(oid \<mapsto> ord\<lparr>status := CANCELLED\<rparr>),
                    active_orders := dict_pop_key oid (active_orders m)\<rparr>)"
    if "orders m oid = Some ord" for ord
    using ok that unfolding manager_ok_def dict_pop_key_def by (auto simp: distinct_removeAll)
  with ok show ?thesis
    by (auto simp: cancel_order_def Let_def cascade_ok split: option.splits)
qed

lemma attach_stop_orders_ok:
  "manager_ok m \<Longrightarrow> manager_ok (snd (attach_stop_orders clk key m))"
  by (auto simp: attach_stop_orders_def Let_def split_beta
      intro!: manager_ok_add_related create_stop_order_ok split: option.splits)

lemma process_fill_ok: "manager_ok m \<Longrightarrow> manager_ok (snd (process_fill clk oid fp ft m))"
proof -
  assume ok: "manager_ok m"
  have filled: "manager_ok (m\<lparr>orders := (orders m)(oid \<mapsto> ord\<lparr>status := FILLED, fill_price := Some fp, fill_time := Some t\<rparr>),
                    active_orders := dict_pop_key oid (active_orders m), fills := fs\<rparr>)"
    if "orders m oid = Some ord" for ord t fs
    using ok that unfolding manager_ok_def dict_pop_key_def by (auto simp: distinct_removeAll)
  show ?thesis
    using filled attach_stop_orders_ok
    using ok by (auto simp: process_fill_def Let_def split_beta split: option.splits sum.splits prod.splits)
qed

subsection \<open>What a fill and its protective pair leave behind\<close>

lemma create_stop_order_linked:
  assumes ok: "manager_ok m" and par: "orders m p = Some po"
    and oid: "oid = order_id_text (clk 0) (order_counter m + 1)"
  shows "create_stop_order clk a sd sz sp ty (Some p) m =
     ((new_order oid a ty sd sz (Some sp) PENDING (clk 1))\<lparr>related_orders := {p}\<rparr>,
      m\<lparr>order_counter := order_counter m + 1,
        orders := (orders m)(p \<mapsto> po\<lparr>related_orders := insert oid (related_orders po)\<rparr>,
                              oid \<mapsto> (new_order oid a ty sd sz (Some sp) PENDING (clk 1))\<lparr>related_orders := {p}\<rparr>),
        active_orders := active_orders m @ [oid]\<rparr>)"
proof -
  have f: "orders m oid = None" unfolding oid using ok by (rule fresh_id) simp
  have na: "oid \<notin> set (active_orders m)" unfolding oid using ok by (rule fresh_id_not_active) simp
  from ok par have pne: "p \<noteq> []" unfolding manager_ok_def by blast
  from f par have neq: "p \<noteq> oid" by auto
  show ?thesis
    using f na pne neq par unfolding oid
    by (simp add: create_stop_order_def generate_order_id_def Let_def add_related_def
        register_order_def dict_set_key_def new_order_def domI)
qed


definition protective_order ::
  "string \<Rightarrow> Order \<Rightarrow> OrderType \<Rightarrow> real \<Rightarrow> datetime \<Rightarrow> string set \<Rightarrow> Order" where
  "protective_order oid parent ty trigger ts rel =
     \<lparr>order_id = oid, asset = asset parent, order_type = ty, side = SELL,
      order_size = order_size parent, price = Some trigger, status = PENDING, timestamp = ts,
      fill_price = None, fill_time = None, entry_price = None, related_orders = rel\<rparr>"

lemma attach_stop_orders_pair:
  assumes ok: "manager_ok m" and par: "orders m key = Some po"
    and fp: "fill_price po = Some P" "P \<noteq> 0"
    and cfg: "config_stops m = Some (s, t)"
    and sl: "sl = order_id_text (clk 0) (order_counter m + 1)"
    and tp: "tp = order_id_text (clk 2) (order_counter m + 2)"
  shows "attach_stop_orders clk key m =
     (Inr [sl, tp],
      m\<lparr>order_counter := order_counter m + 2,
        orders := (orders m)
           (key \<mapsto> po\<lparr>related_orders := insert tp (insert sl (related_orders po))\<rparr>,
            sl \<mapsto> protective_order sl po STOP_LOSS (P * (1 - s)) (clk 1) {key, tp},
            tp \<mapsto> protective_order tp po TAKE_PROFIT (P * (1 + t)) (clk 3) {key, sl}),
        active_orders := active_orders m @ [sl, tp]\<rparr>)"
proof -
  from ok par have id: "order_id po = key" and kne: "key \<noteq> []" unfolding manager_ok_def by blast+
  have fsl: "orders m sl = None" unfolding sl using ok by (rule fresh_id) simp
  have ftp: "orders m tp = None" unfolding tp using ok by (rule fresh_id) simp
  have asl: "sl \<notin> set (active_orders m)" unfolding sl using ok by (rule fresh_id_not_active) simp
  have atp: "tp \<notin> set (active_orders m)" unfolding tp using ok by (rule fresh_id_not_active) simp
  have d1: "sl \<noteq> tp" "tp \<noteq> sl" unfolding sl tp using order_id_text_counter_inj by fastforce+
  from fsl ftp par have d2: "key \<noteq> sl" "key \<noteq> tp" "sl \<noteq> key" "tp \<noteq> key" by auto
  show ?thesis
    using d1 d2 fsl ftp asl atp kne unfolding sl tp
    by (simp add: attach_stop_orders_def par fp cfg id create_stop_order_def generate_order_id_def
        register_order_def dict_set_key_def add_related_def Let_def new_order_def
        protective_order_def later_def domI numeral_2_eq_2 numeral_3_eq_3 fun_upd_twist insert_commute)
qed


lemma fill_step_ok:
  assumes "manager_ok m" and "orders m oid = Some ord"
  shows "manager_ok (m\<lparr>orders := (orders m)(oid \<mapsto>
              ord\<lparr>status := FILLED, fill_price := Some fp, fill_time := Some t\<rparr>),
            active_orders := dict_pop_key oid (active_orders m), fills := fs\<rparr>)"
  using assms unfolding manager_ok_def dict_pop_key_def by (auto simp: distinct_removeAll)

lemma process_fill_market:
  assumes ok: "manager_ok m"
    and ord: "orders m oid = Some ord" "status ord = OPEN" "order_type ord = MARKET"
    and cfg: "config_stops m = Some (s, t)"
    and P: "P \<noteq> 0"
  shows
    "let n0 = (case ft of None \<Rightarrow> 1 | Some u \<Rightarrow> 0);
         t0 = (case ft of None \<Rightarrow> clk 0 | Some u \<Rightarrow> u);
         sl = order_id_text (clk n0) (order_counter m + 1);
         tp = order_id_text (clk (n0 + 2)) (order_counter m + 2);
         parent = ord\<lparr>status := FILLED, fill_price := Some P, fill_time := Some t0\<rparr>
     in orders m sl = None \<and> orders m tp = None \<and> sl \<noteq> tp \<and>
        process_fill clk oid P ft m =
          (Inr True,
           m\<lparr>order_counter := order_counter m + 2,
             orders := (orders m)
               (oid \<mapsto> parent\<lparr>related_orders := insert tp (insert sl (related_orders ord))\<rparr>,
                sl \<mapsto> protective_order sl ord STOP_LOSS (P * (1 - s)) (clk (n0 + 1)) {oid, tp},
                tp \<mapsto> protective_order tp ord TAKE_PROFIT (P * (1 + t)) (clk (n0 + 3)) {oid, sl}),
             active_orders := dict_pop_key oid (active_orders m) @ [sl, tp],
             fills := (fills m)(oid \<mapsto> get_fills oid m @
                        [\<lparr>fill_at = P, fill_when = t0, fill_size = order_size ord\<rparr>])\<rparr>)"
proof -
  define n0 :: nat where "n0 = (case ft of None \<Rightarrow> 1 | Some u \<Rightarrow> 0)"
  define t0 where "t0 = (case ft of None \<Rightarrow> clk 0 | Some u \<Rightarrow> u)"
  define sl where "sl = order_id_text (clk n0) (order_counter m + 1)"
  define tp where "tp = order_id_text (clk (n0 + 2)) (order_counter m + 2)"
  define parent where "parent = ord\<lparr>status := FILLED, fill_price := Some P, fill_time := Some t0\<rparr>"
  define m1 where "m1 = m\<lparr>orders := (orders m)(oid \<mapsto> parent),
                       active_orders := dict_pop_key oid (active_orders m),
                       fills := (fills m)(oid \<mapsto> get_fills oid m @
                        [\<lparr>fill_at = P, fill_when = t0, fill_size = order_size ord\<rparr>])\<rparr>"
  have fsl: "orders m sl = None" unfolding sl_def using ok by (rule fresh_id) simp
  have ftp: "orders m tp = None" unfolding tp_def using ok by (rule fresh_id) simp
  have d: "sl \<noteq> tp" unfolding sl_def tp_def using order_id_text_counter_inj by fastforce
  have ok1: "manager_ok m1" unfolding m1_def parent_def by (rule fill_step_ok [OF ok ord(1)])
  have par1: "orders m1 oid = Some parent" by (simp add: m1_def)
  have fp1: "fill_price parent = Some P" by (simp add: parent_def)
  have cfg1: "config_stops m1 = Some (s, t)" by (simp add: m1_def cfg)
  have sl1: "sl = order_id_text (later n0 clk 0) (order_counter m1 + 1)"
    by (simp add: sl_def later_def m1_def)
  have tp1: "tp = order_id_text (later n0 clk 2) (order_counter m1 + 2)"
    by (simp add: tp_def later_def m1_def add.commute)
  note att = attach_stop_orders_pair [where clk = "later n0 clk", OF ok1 par1 fp1 P cfg1 sl1 tp1]
  have pf: "process_fill clk oid P ft m =
      (case attach_stop_orders (later n0 clk) oid m1 of
         (Inl e, m2) \<Rightarrow> (Inl e, m2) | (Inr stops, m2) \<Rightarrow> (Inr True, m2))"
  proof (cases ft)
    case None
    then show ?thesis
      using ord by (simp add: process_fill_def Let_def m1_def parent_def t0_def n0_def get_fills_def)
  next
    case (Some u)
    then have "later n0 clk = clk" by (simp add: n0_def later_def)
    with Some show ?thesis
      using ord by (simp add: process_fill_def Let_def m1_def parent_def t0_def get_fills_def)
  qed
  have "process_fill clk oid P ft m =
          (Inr True,
           m\<lparr>order_counter := order_counter m + 2,
             orders := (orders m)
               (oid \<mapsto> parent\<lparr>related_orders := insert tp (insert sl (related_orders ord))\<rparr>,
                sl \<mapsto> protective_order sl ord STOP_LOSS (P * (1 - s)) (clk (n0 + 1)) {oid, tp},
                tp \<mapsto> protective_order tp ord TAKE_PROFIT (P * (1 + t)) (clk (n0 + 3)) {oid, sl}),
             active_orders := dict_pop_key oid (active_orders m) @ [sl, tp],
             fills := (fills m)(oid \<mapsto> get_fills oid m @
                        [\<lparr>fill_at = P, fill_when = t0, fill_size = order_size ord\<rparr>])\<rparr>)"
    unfolding pf att
    by (simp add: m1_def parent_def protective_order_def later_def add.commute)
  with fsl ftp d show ?thesis
    unfolding Let_def n0_def [symmetric] t0_def [symmetric] sl_def [symmetric] tp_def [symmetric]
      parent_def [symmetric]
    by simp
qed



section \<open>Example states\<close>

definition example_clock :: clock where
  "example_clock k = ''20240101_120000''"

definition open_market :: Order where
  "open_market = (new_order ''order_20240101_120000_1'' ''BTC/USD'' MARKET BUY 1 None PENDING
      ''20240101_120000'')\<lparr>status := OPEN, entry_price := Some 50000\<rparr>"

definition one_open :: OrderManager where
  "one_open = (init_manager (Some (2 / 100, 3 / 100)))
     \<lparr>orders := [''order_20240101_120000_1'' \<mapsto> open_market],
      active_orders := [''order_20240101_120000_1''], order_counter := 1\<rparr>"

lemmas id_text = order_id_text_def show_nat_digit digit_char_def

lemma one_open_created:
  "one_open = (let (ord, m) = create_market_order example_clock ''BTC/USD'' BUY 1 True
                    (init_manager (Some (2 / 100, 3 / 100)))
               in m\<lparr>orders := (orders m)(order_id ord \<mapsto> ord\<lparr>status := OPEN, entry_price := Some 50000\<rparr>)\<rparr>)"
  by (simp add: one_open_def open_market_def create_market_order_def generate_order_id_def
      register_order_def dict_set_key_def init_manager_def example_clock_def id_text Let_def)

lemma one_open_ok: "manager_ok one_open"
  using id_counter_order_id_text [of "''20240101_120000''" 1]
  by (simp add: id_text manager_ok_def one_open_def open_market_def init_manager_def cancellable_def
      new_order_def)


section \<open>Rejected calls leave the manager as it was\<close>

text \<open>
  C3. \<open>process_fill\<close> and \<open>cancel_order\<close> on an id the table does not know, or on an order
  whose status is not eligible (not open for \<open>process_fill\<close>; neither pending nor open for
  \<open>cancel_order\<close>), return false and leave the whole manager unchanged: the order table, the
  active orders, the fill ledger, the counter and with them every field of every order.
\<close>

theorem rejected_calls_change_nothing:
  "(orders m oid = None \<or> (\<exists>ord. orders m oid = Some ord \<and> status ord \<noteq> OPEN)
      \<longrightarrow> process_fill clk oid fp ft m = (Inr False, m))
   \<and> (orders m oid = None \<or>
        (\<exists>ord. orders m oid = Some ord \<and> status ord \<noteq> PENDING \<and> status ord \<noteq> OPEN)
      \<longrightarrow> cancel_order oid m = (False, m))"
  by (auto simp: process_fill_def cancel_order_def cancellable_def)

text \<open>
  The instances: an id no order has, on a new manager; and an order that is already
  filled.
\<close>

definition filled_order :: Order where
  "filled_order = (new_order ''order_20240101_120000_1'' ''BTC/USD'' LIMIT BUY 1 (Some 50000)
      PENDING ''20240101_120000'')\<lparr>status := FILLED, fill_price := Some 50000\<rparr>"

definition one_filled :: OrderManager where
  "one_filled = (init_manager None)
     \<lparr>orders := [''order_20240101_120000_1'' \<mapsto> filled_order], order_counter := 1\<rparr>"

theorem rejected_calls_change_nothing_witness:
  "orders (init_manager None) ''order_x'' = None
   \<and> process_fill (\<lambda>k. ''20240101_120000'') ''order_x'' 100 None (init_manager None)
       = (Inr False, init_manager None)
   \<and> cancel_order ''order_x'' (init_manager None) = (False, init_manager None)
   \<and> orders one_filled ''order_20240101_120000_1'' = Some filled_order
   \<and> status filled_order = FILLED
   \<and> process_fill (\<lambda>k. ''20240101_120000'') ''order_20240101_120000_1'' 100 None one_filled
       = (Inr False, one_filled)
   \<and> cancel_order ''order_20240101_120000_1'' one_filled = (False, one_filled)"
proof -
  have a: "orders (init_manager None) ''order_x'' = None"
    by (simp add: init_manager_def)
  have b: "orders one_filled ''order_20240101_120000_1'' = Some filled_order"
    by (simp add: one_filled_def)
  have c: "status filled_order = FILLED"
    by (simp add: filled_order_def)
  from a b c
    rejected_calls_change_nothing
      [of "init_manager None" "''order_x''" "\<lambda>k. ''20240101_120000''" 100 None]
    rejected_calls_change_nothing
      [of one_filled "''order_20240101_120000_1''" "\<lambda>k. ''20240101_120000''" 100 None]
  show ?thesis by auto
qed

section \<open>A filled market order gets its protective pair\<close>

text \<open>
  C1, as amended. A market order that \<open>process_fill\<close> fills at a price \<open>P\<close> other than
  zero, under a configuration with stop-loss percent \<open>s\<close> and take-profit percent \<open>t\<close>,
  gets exactly two new orders: a sell stop-loss with trigger price \<open>P * (1 - s)\<close> and a sell
  take-profit with trigger price \<open>P * (1 + t)\<close>. Both have the parent's asset and size,
  are pending and are appended to the active orders. Each names the parent and the other
  in its \<open>related_orders\<close>, and the parent gains both ids. No other order of the table
  changes. (\<open>n0\<close> counts the clock reading that the fill time takes when none is given.)
\<close>

theorem market_fill_attaches_protective_pair:
  assumes "manager_ok m"
    and "orders m oid = Some ord" and "status ord = OPEN" and "order_type ord = MARKET"
    and "config_stops m = Some (s, t)"
    and "P \<noteq> 0"
  shows
    "let n0 = (case ft of None \<Rightarrow> 1 | Some u \<Rightarrow> 0);
         t0 = (case ft of None \<Rightarrow> clk 0 | Some u \<Rightarrow> u);
         sl = order_id_text (clk n0) (order_counter m + 1);
         tp = order_id_text (clk (n0 + 2)) (order_counter m + 2);
         parent = ord\<lparr>status := FILLED, fill_price := Some P, fill_time := Some t0\<rparr>
     in orders m sl = None \<and> orders m tp = None \<and> sl \<noteq> tp \<and>
        process_fill clk oid P ft m =
          (Inr True,
           m\<lparr>order_counter := order_counter m + 2,
             orders := (orders m)
               (oid \<mapsto> parent\<lparr>related_orders := insert tp (insert sl (related_orders ord))\<rparr>,
                sl \<mapsto> protective_order sl ord STOP_LOSS (P * (1 - s)) (clk (n0 + 1)) {oid, tp},
                tp \<mapsto> protective_order tp ord TAKE_PROFIT (P * (1 + t)) (clk (n0 + 3)) {oid, sl}),
             active_orders := dict_pop_key oid (active_orders m) @ [sl, tp],
             fills := (fills m)(oid \<mapsto> get_fills oid m @
                        [\<lparr>fill_at = P, fill_when = t0, fill_size = order_size ord\<rparr>])\<rparr>)"
  using assms by (rule process_fill_market)

text \<open>
  The instance: the market order of \<open>one_open\<close>, filled at 50000 with 2 and 3 per cent,
  gets a stop-loss at 49000 and a take-profit at 51500.
\<close>

theorem market_fill_attaches_protective_pair_witness:
  "manager_ok one_open
   \<and> orders one_open ''order_20240101_120000_1'' = Some open_market
   \<and> status open_market = OPEN \<and> order_type open_market = MARKET
   \<and> config_stops one_open = Some (2 / 100, 3 / 100)
   \<and> process_fill example_clock ''order_20240101_120000_1'' 50000 None one_open =
       (Inr True,
        one_open\<lparr>order_counter := 3,
          orders := [''order_20240101_120000_1'' \<mapsto>
               open_market\<lparr>status := FILLED, fill_price := Some 50000,
                 fill_time := Some ''20240101_120000'',
                 related_orders := {''order_20240101_120000_2'', ''order_20240101_120000_3''}\<rparr>,
             ''order_20240101_120000_2'' \<mapsto>
               protective_order ''order_20240101_120000_2'' open_market STOP_LOSS 49000
                 ''20240101_120000'' {''order_20240101_120000_1'', ''order_20240101_120000_3''},
             ''order_20240101_120000_3'' \<mapsto>
               protective_order ''order_20240101_120000_3'' open_market TAKE_PROFIT 51500
                 ''20240101_120000'' {''order_20240101_120000_1'', ''order_20240101_120000_2''}],
          active_orders := [''order_20240101_120000_2'', ''order_20240101_120000_3''],
          fills := [''order_20240101_120000_1'' \<mapsto>
               [\<lparr>fill_at = 50000, fill_when = ''20240101_120000'', fill_size = 1\<rparr>]]\<rparr>)"
proof -
  have h: "orders one_open ''order_20240101_120000_1'' = Some open_market"
    "status open_market = OPEN" "order_type open_market = MARKET"
    "config_stops one_open = Some (2 / 100, 3 / 100)"
    by (simp_all add: one_open_def open_market_def init_manager_def new_order_def)
  have p: "(50000::real) \<noteq> 0" by simp
  from market_fill_attaches_protective_pair [OF one_open_ok h p, of None example_clock]
  have "process_fill example_clock ''order_20240101_120000_1'' 50000 None one_open =
       (Inr True,
        one_open\<lparr>order_counter := 3,
          orders := [''order_20240101_120000_1'' \<mapsto>
               open_market\<lparr>status := FILLED, fill_price := Some 50000,
                 fill_time := Some ''20240101_120000'',
                 related_orders := {''order_20240101_120000_2'', ''order_20240101_120000_3''}\<rparr>,
             ''order_20240101_120000_2'' \<mapsto>
               protective_order ''order_20240101_120000_2'' open_market STOP_LOSS 49000
                 ''20240101_120000'' {''order_20240101_120000_1'', ''order_20240101_120000_3''},
             ''order_20240101_120000_3'' \<mapsto>
               protective_order ''order_20240101_120000_3'' open_market TAKE_PROFIT 51500
                 ''20240101_120000'' {''order_20240101_120000_1'', ''order_20240101_120000_2''}],
          active_orders := [''order_20240101_120000_2'', ''order_20240101_120000_3''],
          fills := [''order_20240101_120000_1'' \<mapsto>
               [\<lparr>fill_at = 50000, fill_when = ''20240101_120000'', fill_size = 1\<rparr>]]\<rparr>)"
    by (simp add: Let_def example_clock_def id_text one_open_def init_manager_def
        open_market_def new_order_def get_fills_def dict_pop_key_def insert_commute)
  with one_open_ok h show ?thesis by simp
qed

text \<open>
  The claim as it stands, for every fill price, fails at the price 0: \<open>if not
  parent_order.fill_price\<close> is true of \<open>0.0\<close>, so the fill succeeds and no order is
  attached.
\<close>

theorem fill_at_price_zero_attaches_nothing:
  "process_fill example_clock ''order_20240101_120000_1'' 0 None one_open =
     (Inr True,
      one_open\<lparr>orders := [''order_20240101_120000_1'' \<mapsto>
                  open_market\<lparr>status := FILLED, fill_price := Some 0,
                    fill_time := Some ''20240101_120000''\<rparr>],
               active_orders := [],
               fills := [''order_20240101_120000_1'' \<mapsto>
                  [\<lparr>fill_at = 0, fill_when = ''20240101_120000'', fill_size = 1\<rparr>]]\<rparr>)"
  by (simp add: process_fill_def attach_stop_orders_def one_open_def open_market_def
      init_manager_def new_order_def example_clock_def dict_pop_key_def Let_def)

section \<open>Cancelling one protective order cancels both\<close>

text \<open>
  \<open>protective_pair m p sl tp\<close>: in \<open>m\<close> the order \<open>p\<close> is filled, \<open>sl\<close> is a stop-loss
  and \<open>tp\<close> a take-profit, both still pending or open, and each names the other in its
  \<open>related_orders\<close>. This is what a market fill leaves (lemma
  \<open>protective_pair_after_fill\<close>). \<open>cancelled r\<close> is the order \<open>r\<close> with the status
  \<open>CANCELLED\<close> and every other field as it was.
\<close>

definition protective_pair :: "OrderManager \<Rightarrow> string \<Rightarrow> string \<Rightarrow> string \<Rightarrow> bool" where
  "protective_pair m p sl tp \<longleftrightarrow>
     (\<exists>po a b. orders m p = Some po \<and> status po = FILLED
        \<and> orders m sl = Some a \<and> order_type a = STOP_LOSS \<and> cancellable a
        \<and> orders m tp = Some b \<and> order_type b = TAKE_PROFIT \<and> cancellable b
        \<and> tp \<in> related_orders a \<and> sl \<in> related_orders b)"

definition cancelled :: "Order option \<Rightarrow> Order option" where
  "cancelled r = map_option (\<lambda>ord. ord\<lparr>status := CANCELLED\<rparr>) r"

text \<open>
  C2. For a protective pair attached to a filled market order, \<open>cancel_order\<close> on the
  stop-loss or on the take-profit returns true; afterwards both are cancelled (their other
  fields unchanged) and neither is active; the parent is as it was. The cascade goes one
  level over the relation set of the cancelled order: no order that was already terminal
  changes, and no order outside that relation set changes.
\<close>

theorem cancelling_one_protective_order_cancels_both:
  assumes "protective_pair m p sl tp" and "x = sl \<or> x = tp"
  shows "fst (cancel_order x m) = True
    \<and> orders (snd (cancel_order x m)) sl = cancelled (orders m sl)
    \<and> orders (snd (cancel_order x m)) tp = cancelled (orders m tp)
    \<and> sl \<notin> set (active_orders (snd (cancel_order x m)))
    \<and> tp \<notin> set (active_orders (snd (cancel_order x m)))
    \<and> orders (snd (cancel_order x m)) p = orders m p
    \<and> (\<forall>k ord. orders m k = Some ord \<and> \<not> cancellable ord
          \<longrightarrow> orders (snd (cancel_order x m)) k = Some ord)
    \<and> (\<forall>k ord. orders m x = Some ord \<and> k \<noteq> x \<and> k \<notin> related_orders ord
          \<longrightarrow> orders (snd (cancel_order x m)) k = orders m k)"
proof -
  from assms(1) obtain po a b where h:
    "orders m p = Some po" "status po = FILLED"
    "orders m sl = Some a" "cancellable a" "orders m tp = Some b" "cancellable b"
    "tp \<in> related_orders a" "sl \<in> related_orders b"
    unfolding protective_pair_def by blast
  from h(1,2,3,4,5,6) have ne: "p \<noteq> sl" "p \<noteq> tp" by (auto simp: cancellable_def)
  from assms(2) show ?thesis
  proof
    assume "x = sl"
    with h ne show ?thesis
      by (auto simp: cancel_order_def cascade_def cancelled_def cancellable_def dict_pop_key_def Let_def
          split: option.splits)
  next
    assume "x = tp"
    with h ne show ?thesis
      by (auto simp: cancel_order_def cascade_def cancelled_def cancellable_def dict_pop_key_def Let_def
          split: option.splits)
  qed
qed


text \<open>The state a market fill leaves has such a pair.\<close>

lemma protective_pair_after_fill:
  assumes "manager_ok m"
    and "orders m oid = Some ord" and "status ord = OPEN" and "order_type ord = MARKET"
    and "config_stops m = Some (s, t)"
    and "P \<noteq> 0"
  shows "protective_pair (snd (process_fill clk oid P ft m)) oid
           (order_id_text (clk (case ft of None \<Rightarrow> 1 | Some u \<Rightarrow> 0)) (order_counter m + 1))
           (order_id_text (clk ((case ft of None \<Rightarrow> 1 | Some u \<Rightarrow> 0) + 2)) (order_counter m + 2))"
proof -
  define n0 :: nat where "n0 = (case ft of None \<Rightarrow> 1 | Some u \<Rightarrow> 0)"
  define sl where "sl = order_id_text (clk n0) (order_counter m + 1)"
  define tp where "tp = order_id_text (clk (n0 + 2)) (order_counter m + 2)"
  note cf = process_fill_market [OF assms, of ft clk, unfolded Let_def,
      folded n0_def, folded sl_def tp_def]
  from cf have fresh: "orders m sl = None" "orders m tp = None" "sl \<noteq> tp" by simp_all
  with assms(2) have ne: "oid \<noteq> sl" "oid \<noteq> tp" by auto
  from cf have "protective_pair (snd (process_fill clk oid P ft m)) oid sl tp"
    using ne fresh(3)
    by (simp add: protective_pair_def protective_order_def cancellable_def)
  then show ?thesis by (simp add: sl_def tp_def n0_def)
qed

text \<open>
  The instance: \<open>pair_attached\<close> is \<open>one_open\<close> after its order was filled at 50000
  (lemma \<open>one_open_filled\<close>); there the stop-loss is cancelled.
\<close>

definition pair_attached :: OrderManager where
  "pair_attached =
     one_open\<lparr>order_counter := 3,
       orders := [''order_20240101_120000_1'' \<mapsto>
            open_market\<lparr>status := FILLED, fill_price := Some 50000,
              fill_time := Some ''20240101_120000'',
              related_orders := {''order_20240101_120000_2'', ''order_20240101_120000_3''}\<rparr>,
          ''order_20240101_120000_2'' \<mapsto>
            protective_order ''order_20240101_120000_2'' open_market STOP_LOSS 49000
              ''20240101_120000'' {''order_20240101_120000_1'', ''order_20240101_120000_3''},
          ''order_20240101_120000_3'' \<mapsto>
            protective_order ''order_20240101_120000_3'' open_market TAKE_PROFIT 51500
              ''20240101_120000'' {''order_20240101_120000_1'', ''order_20240101_120000_2''}],
       active_orders := [''order_20240101_120000_2'', ''order_20240101_120000_3''],
       fills := [''order_20240101_120000_1'' \<mapsto>
            [\<lparr>fill_at = 50000, fill_when = ''20240101_120000'', fill_size = 1\<rparr>]]\<rparr>"

lemma one_open_facts:
  "orders one_open ''order_20240101_120000_1'' = Some open_market"
  "status open_market = OPEN" "order_type open_market = MARKET"
  "config_stops one_open = Some (2 / 100, 3 / 100)"
  by (simp_all add: one_open_def open_market_def init_manager_def new_order_def)

lemma one_open_filled:
  "process_fill example_clock ''order_20240101_120000_1'' 50000 None one_open
     = (Inr True, pair_attached)"
proof -
  have p: "(50000::real) \<noteq> 0" by simp
  from process_fill_market [OF one_open_ok one_open_facts p, of None example_clock]
  show ?thesis
    by (simp add: Let_def example_clock_def id_text one_open_def init_manager_def pair_attached_def
        open_market_def new_order_def get_fills_def dict_pop_key_def insert_commute)
qed

lemma pair_attached_pair:
  "protective_pair pair_attached ''order_20240101_120000_1'' ''order_20240101_120000_2''
     ''order_20240101_120000_3''"
  by (simp add: protective_pair_def pair_attached_def protective_order_def open_market_def
      cancellable_def)

theorem cancelling_one_protective_order_cancels_both_witness:
  "protective_pair pair_attached ''order_20240101_120000_1'' ''order_20240101_120000_2''
     ''order_20240101_120000_3''
   \<and> fst (cancel_order ''order_20240101_120000_2'' pair_attached) = True
   \<and> map_option status (orders (snd (cancel_order ''order_20240101_120000_2'' pair_attached))
        ''order_20240101_120000_2'') = Some CANCELLED
   \<and> map_option status (orders (snd (cancel_order ''order_20240101_120000_2'' pair_attached))
        ''order_20240101_120000_3'') = Some CANCELLED
   \<and> ''order_20240101_120000_2'' \<notin> set (active_orders (snd (cancel_order ''order_20240101_120000_2'' pair_attached)))
   \<and> ''order_20240101_120000_3'' \<notin> set (active_orders (snd (cancel_order ''order_20240101_120000_2'' pair_attached)))
   \<and> orders (snd (cancel_order ''order_20240101_120000_2'' pair_attached)) ''order_20240101_120000_1''
       = orders pair_attached ''order_20240101_120000_1''"
  using pair_attached_pair
    cancelling_one_protective_order_cancels_both
      [OF pair_attached_pair, of "''order_20240101_120000_2''"]
  by (simp add: cancelled_def pair_attached_def)

end
